theory Spec2Isabelle
  imports Complex_Main "HOL-Library.Sublist"
begin

section \<open>Data model of the exercise evaluation engine\<close>

text \<open>
  The engine is the module that exports \<open>evaluateFrame\<close> (src/unnamed/part_001, lines
  207--406). JavaScript numbers are modelled as mathematical reals (coordinates, angles,
  quality) and as integers (the repetition counter, which the caller starts at 0 and which
  the engine only ever increments by 1); rounding, infinities and NaN of IEEE doubles are
  outside this model. A landmark is a point with fields \<open>x\<close> and \<open>y\<close>; the other fields of
  the detector's landmark type are never read by the engine.
\<close>

datatype error = TypeError

record keypoint =
  x :: real
  y :: real

text \<open>
  \<open>PoseLandmarkerResult\<close> and \<open>HandLandmarkerResult\<close>: the engine reads only the field
  \<open>landmarks\<close>, a list of landmark lists (one per detected subject). A \<open>null\<close> result is
  \<open>None\<close>.
\<close>

record landmarkerResult =
  landmarks :: "keypoint list list"

text \<open>The caller-owned counter state \<open>{rep, phase}\<close> passed into every call.\<close>

record state =
  state_rep :: int
  state_phase :: string

text \<open>
  The status of a result is a string. Three analyzers build it from a template with numbers
  formatted by \<open>toFixed\<close>; the model keeps the template and the unformatted numbers:
  \<open>YawDeg yaw\<close> is \<open>`Yaw ${yaw.toFixed(1)} deg`\<close>, \<open>PinchGapPct p\<close> is
  \<open>`Pinch gap ${p.toFixed(0)}%`\<close>, and \<open>ShoulderDeg l r\<close> is
  \<open>`L:${l.toFixed(0)} deg R:${r.toFixed(0)} deg`\<close>.
\<close>

datatype status = Text string | YawDeg real | PinchGapPct real | ShoulderDeg real real

text \<open>The per-frame result \<open>{rep, status, quality, phase?}\<close>; an absent \<open>phase\<close> is \<open>None\<close>.\<close>

record result =
  rep :: int
  status :: status
  quality :: real
  phase :: "string option"

section \<open>JavaScript primitives\<close>

text \<open>
  \<open>lm[i]\<close> on an array: the element, or \<open>undefined\<close> (here \<open>None\<close>) out of range. Reading
  a property of \<open>undefined\<close> throws a \<open>TypeError\<close>; every such read is a \<open>case\<close> in the
  analyzers below.
\<close>

fun at_index :: "'a list \<Rightarrow> nat \<Rightarrow> 'a option" where
  "at_index [] i = None"
| "at_index (a # as) i = (if i = 0 then Some a else at_index as (i - 1))"

text \<open>\<open>Math.hypot(a, b)\<close>.\<close>

definition hypot :: "real \<Rightarrow> real \<Rightarrow> real" where
  "hypot a b = sqrt (a\<^sup>2 + b\<^sup>2)"

text \<open>\<open>s.includes(t)\<close>: \<open>t\<close> occurs in \<open>s\<close> as a contiguous substring.\<close>

fun str_includes :: "string \<Rightarrow> string \<Rightarrow> bool" where
  "str_includes [] t = (t = [])"
| "str_includes (c # cs) t = (prefix t (c # cs) \<or> str_includes cs t)"

section \<open>Geometric primitives (lines 207--223)\<close>

definition distance :: "keypoint \<Rightarrow> keypoint \<Rightarrow> real" where
  "distance a b = hypot (x a - x b) (y a - y b)"

definition angleDeg :: "keypoint \<Rightarrow> keypoint \<Rightarrow> keypoint \<Rightarrow> real" where
  "angleDeg a b c =
     (let abx = x a - x b; aby = y a - y b;
          cbx = x c - x b; cby = y c - y b;
          dot = abx * cbx + aby * cby;
          magAb = hypot abx aby;
          magCb = hypot cbx cby
      in if magAb = 0 \<or> magCb = 0 then 180
         else let cos = min 1 (max (- 1) (dot / (magAb * magCb)))
              in arccos cos * (180 / pi))"

section \<open>Head-turn analyzer (lines 247--286)\<close>

text \<open>Lines 256 and 259--261: the shoulder span and the yaw angle in degrees.\<close>

definition head_span :: "keypoint \<Rightarrow> keypoint \<Rightarrow> real" where
  "head_span lShoulder rShoulder = \<bar>x lShoulder - x rShoulder\<bar>"

definition head_yaw :: "keypoint \<Rightarrow> keypoint \<Rightarrow> keypoint \<Rightarrow> real" where
  "head_yaw nose lShoulder rShoulder =
     (let span = head_span lShoulder rShoulder;
          center = (x lShoulder + x rShoulder) / 2;
          delta = x nose - center
      in arcsin (max (- 1) (min 1 (delta / span))) * (180 / pi))"

text \<open>Lines 262--277: the chain of four tests on the yaw and the prior phase, in source order.\<close>

definition head_step :: "real \<Rightarrow> state \<Rightarrow> int \<times> string" where
  "head_step yaw st =
     (let threshold = 25;
          rep = state_rep st;
          phase = state_phase st
      in if yaw > threshold \<and> phase \<noteq> ''right'' then (rep, ''right'')
         else if yaw < - threshold \<and> phase = ''right'' then (rep + 1, ''left'')
         else if yaw < - threshold \<and> phase \<noteq> ''left'' then (rep, ''left'')
         else if yaw > threshold \<and> phase = ''left'' then (rep + 1, ''right'')
         else (rep, phase))"

definition headLogic :: "landmarkerResult option \<Rightarrow> state \<Rightarrow> error + result" where
  "headLogic pose st =
     (case pose of
        None \<Rightarrow> Inr \<lparr>rep = state_rep st, status = Text ''Show your shoulders and head'',
                     quality = 0, phase = None\<rparr>
      | Some p \<Rightarrow>
        (case landmarks p of
           [] \<Rightarrow> Inr \<lparr>rep = state_rep st, status = Text ''Show your shoulders and head'',
                      quality = 0, phase = None\<rparr>
         | lm # _ \<Rightarrow>
           (case at_index lm 11 of None \<Rightarrow> Inl TypeError | Some lShoulder \<Rightarrow>
           (case at_index lm 12 of None \<Rightarrow> Inl TypeError | Some rShoulder \<Rightarrow>
              let span = head_span lShoulder rShoulder
              in if span = 0
                 then Inr \<lparr>rep = state_rep st, status = Text ''Hold steady'',
                           quality = 0, phase = None\<rparr>
                 else
                   (case at_index lm 0 of None \<Rightarrow> Inl TypeError | Some nose \<Rightarrow>
                      let yaw = head_yaw nose lShoulder rShoulder;
                          threshold = 25;
                          (rep', phase') = head_step yaw st;
                          quality' = min 100 (max 0 ((\<bar>yaw\<bar> / threshold) * 70))
                      in Inr \<lparr>rep = rep', status = YawDeg yaw,
                               quality = quality', phase = Some phase'\<rparr>)))))"

section \<open>Finger-pinch analyzer (lines 288--311)\<close>

text \<open>Lines 297--299: the normalised pinch gap; \<open>span || 0.1\<close> is \<open>0.1\<close> exactly when
  \<open>span\<close> is zero.\<close>

definition finger_norm :: "keypoint \<Rightarrow> keypoint \<Rightarrow> keypoint \<Rightarrow> real" where
  "finger_norm thumb index wrist =
     (let span = distance thumb wrist;
          pinch = distance thumb index
      in pinch / (if span \<noteq> 0 then span else 0.1))"

text \<open>Lines 301--307: two successive tests, the second reading the phase the first may have set.\<close>

definition finger_step :: "real \<Rightarrow> state \<Rightarrow> int \<times> string" where
  "finger_step gap st =
     (let rep = state_rep st;
          phase = state_phase st;
          phase = (if gap < 0.25 then ''pinched'' else phase)
      in if gap > 0.45 \<and> phase = ''pinched'' then (rep + 1, ''released'')
         else (rep, phase))"

definition fingerLogic :: "landmarkerResult option \<Rightarrow> state \<Rightarrow> error + result" where
  "fingerLogic hand st =
     (case hand of
        None \<Rightarrow> Inr \<lparr>rep = state_rep st, status = Text ''Show your hand to the camera'',
                     quality = 0, phase = None\<rparr>
      | Some h \<Rightarrow>
        (case landmarks h of
           [] \<Rightarrow> Inr \<lparr>rep = state_rep st, status = Text ''Show your hand to the camera'',
                      quality = 0, phase = None\<rparr>
         | lm # _ \<Rightarrow>
           (case at_index lm 4 of None \<Rightarrow> Inl TypeError | Some thumb \<Rightarrow>
           (case at_index lm 0 of None \<Rightarrow> Inl TypeError | Some wrist \<Rightarrow>
           (case at_index lm 8 of None \<Rightarrow> Inl TypeError | Some index \<Rightarrow>
              let norm = finger_norm thumb index wrist;
                  (rep', phase') = finger_step norm st;
                  quality' = max 0 (min 100 ((0.45 - norm) * 200))
              in Inr \<lparr>rep = rep', status = PinchGapPct (norm * 100),
                       quality = quality', phase = Some phase'\<rparr>)))))"

section \<open>Open/fist analyzer (lines 313--333)\<close>

text \<open>Line 321: \<open>tips.filter((t, idx) => t.y < mcp[idx].y).length\<close> over the paired
  fingertips and knuckles; a missing landmark throws when its \<open>y\<close> is read.\<close>

fun countExtended :: "(keypoint option \<times> keypoint option) list \<Rightarrow> error + nat" where
  "countExtended [] = Inr 0"
| "countExtended ((t, m) # rest) =
     (case t of None \<Rightarrow> Inl TypeError | Some tip \<Rightarrow>
     (case m of None \<Rightarrow> Inl TypeError | Some knuckle \<Rightarrow>
     (case countExtended rest of Inl e \<Rightarrow> Inl e
      | Inr n \<Rightarrow> Inr (if y tip < y knuckle then Suc n else n))))"

definition hand_step :: "nat \<Rightarrow> state \<Rightarrow> int \<times> string" where
  "hand_step extended st =
     (let rep = state_rep st;
          phase = state_phase st;
          phase = (if extended \<ge> 3 then ''open'' else phase)
      in if extended \<le> 1 \<and> phase = ''open'' then (rep + 1, ''fist'')
         else (rep, phase))"

definition handLogic :: "landmarkerResult option \<Rightarrow> state \<Rightarrow> error + result" where
  "handLogic hand st =
     (case hand of
        None \<Rightarrow> Inr \<lparr>rep = state_rep st, status = Text ''Show your hand to the camera'',
                     quality = 0, phase = None\<rparr>
      | Some h \<Rightarrow>
        (case landmarks h of
           [] \<Rightarrow> Inr \<lparr>rep = state_rep st, status = Text ''Show your hand to the camera'',
                      quality = 0, phase = None\<rparr>
         | lm # _ \<Rightarrow>
           let tips = map (at_index lm) [8, 12, 16, 20];
               mcp = map (at_index lm) [5, 9, 13, 17]
           in (case countExtended (zip tips mcp) of Inl e \<Rightarrow> Inl e
               | Inr extended \<Rightarrow>
                 let (rep', phase') = hand_step extended st;
                     quality' = min 100 (real extended * 25)
                 in Inr \<lparr>rep = rep',
                          status = Text (if extended \<ge> 3 then ''Open'' else ''Fist''),
                          quality = quality', phase = Some phase'\<rparr>)))"

section \<open>Knee-raise analyzer (lines 335--357)\<close>

definition leg_step :: "bool \<Rightarrow> state \<Rightarrow> int \<times> string" where
  "leg_step raised st =
     (let rep = state_rep st;
          phase = state_phase st;
          phase = (if raised then ''up'' else phase)
      in if \<not> raised \<and> phase = ''up'' then (rep + 1, ''down'')
         else (rep, phase))"

definition legLogic :: "landmarkerResult option \<Rightarrow> state \<Rightarrow> error + result" where
  "legLogic pose st =
     (case pose of
        None \<Rightarrow> Inr \<lparr>rep = state_rep st, status = Text ''Show full body to camera'',
                     quality = 0, phase = None\<rparr>
      | Some p \<Rightarrow>
        (case landmarks p of
           [] \<Rightarrow> Inr \<lparr>rep = state_rep st, status = Text ''Show full body to camera'',
                      quality = 0, phase = None\<rparr>
         | lm # _ \<Rightarrow>
           (case at_index lm 25 of None \<Rightarrow> Inl TypeError | Some knee \<Rightarrow>
           (case at_index lm 23 of None \<Rightarrow> Inl TypeError | Some hip \<Rightarrow>
              let raised = (y knee < y hip - 0.05);
                  (rep', phase') = leg_step raised st
              in (case at_index lm 27 of None \<Rightarrow> Inl TypeError | Some ankle \<Rightarrow>
                    let ang = angleDeg hip knee ankle;
                        quality' = min 100 (max 0 ((180 - ang) * 1.2))
                    in Inr \<lparr>rep = rep',
                             status = Text (if raised then ''Knee up'' else ''Neutral''),
                             quality = quality', phase = Some phase'\<rparr>)))))"

section \<open>Shoulder-raise analyzer (lines 359--407)\<close>

text \<open>Lines 369--374: the shoulder span (never zero) and the elevation angle of one side.\<close>

definition shoulder_span :: "keypoint \<Rightarrow> keypoint \<Rightarrow> real" where
  "shoulder_span lShoulder rShoulder = \<bar>x rShoulder - x lShoulder\<bar> + 0.0001"

definition shoulder_angle :: "keypoint \<Rightarrow> keypoint \<Rightarrow> real \<Rightarrow> real" where
  "shoulder_angle ear shoulder span' = (1 - \<bar>y ear - y shoulder\<bar> / span') * 180"

text \<open>
  Lines 376--398. The prior phase is typed \<open>string\<close>, so \<open>phaseStr\<close> is the prior phase
  itself. The two sides are tested one after the other on the same counter.
\<close>

definition shoulder_step :: "real \<Rightarrow> real \<Rightarrow> state \<Rightarrow> int \<times> string" where
  "shoulder_step lAngle rAngle st =
     (let liftAngle = 60;
          relaxAngle = 40;
          rep = state_rep st;
          phaseStr = state_phase st;
          leftHold = str_includes phaseStr ''L1'';
          rightHold = str_includes phaseStr ''R1'';
          (rep, leftHold) =
            (if \<not> leftHold \<and> lAngle \<ge> liftAngle then (rep + 1, True)
             else if leftHold \<and> lAngle < relaxAngle then (rep, False)
             else (rep, leftHold));
          (rep, rightHold) =
            (if \<not> rightHold \<and> rAngle \<ge> liftAngle then (rep + 1, True)
             else if rightHold \<and> rAngle < relaxAngle then (rep, False)
             else (rep, rightHold));
          phase = ''L'' @ (if leftHold then ''1'' else ''0'')
                  @ ''R'' @ (if rightHold then ''1'' else ''0'')
      in (rep, phase))"

definition shoulderLogic :: "landmarkerResult option \<Rightarrow> state \<Rightarrow> error + result" where
  "shoulderLogic pose st =
     (case pose of
        None \<Rightarrow> Inr \<lparr>rep = state_rep st, status = Text ''Show upper body'',
                     quality = 0, phase = None\<rparr>
      | Some p \<Rightarrow>
        (case landmarks p of
           [] \<Rightarrow> Inr \<lparr>rep = state_rep st, status = Text ''Show upper body'',
                      quality = 0, phase = None\<rparr>
         | lm # _ \<Rightarrow>
           (case at_index lm 12 of None \<Rightarrow> Inl TypeError | Some rShoulder \<Rightarrow>
           (case at_index lm 11 of None \<Rightarrow> Inl TypeError | Some lShoulder \<Rightarrow>
           (case at_index lm 7 of None \<Rightarrow> Inl TypeError | Some lEar \<Rightarrow>
           (case at_index lm 8 of None \<Rightarrow> Inl TypeError | Some rEar \<Rightarrow>
              let span = shoulder_span lShoulder rShoulder;
                  lAngle = shoulder_angle lEar lShoulder span;
                  rAngle = shoulder_angle rEar rShoulder span;
                  (rep', phase') = shoulder_step lAngle rAngle st;
                  quality' = min 100 (max lAngle rAngle / 1.2)
              in Inr \<lparr>rep = rep', status = ShoulderDeg lAngle rAngle,
                       quality = quality', phase = Some phase'\<rparr>))))))"

section \<open>Dispatch (lines 225--245)\<close>

definition evaluateFrame ::
  "string \<Rightarrow> landmarkerResult option \<Rightarrow> landmarkerResult option \<Rightarrow> state \<Rightarrow> error + result"
where
  "evaluateFrame exercise pose hand st =
     (if exercise = ''head'' then headLogic pose st
      else if exercise = ''finger'' then fingerLogic hand st
      else if exercise = ''hand'' then handLogic hand st
      else if exercise = ''leg'' then legLogic pose st
      else if exercise = ''shoulder'' then shoulderLogic pose st
      else Inr \<lparr>rep = state_rep st, status = Text ''Idle'', quality = 0, phase = None\<rparr>)"

text \<open>
  The caller's frame loop (src/pages/PatientPage.tsx, lines 372--383) feeds the returned
  counter and phase back into the next call: the counter is overwritten by the result's,
  the phase only when the result carries a non-empty one.
\<close>

definition advance :: "state \<Rightarrow> result \<Rightarrow> state" where
  "advance st r =
     \<lparr>state_rep = rep r,
      state_phase = (case phase r of None \<Rightarrow> state_phase st
                     | Some ph \<Rightarrow> if ph \<noteq> [] then ph else state_phase st)\<rparr>"

section \<open>Example frames\<close>

text \<open>
  Concrete inputs for the examples below: a point, and a detector result holding one
  subject whose \<open>n\<close> landmarks are given by position.
\<close>

definition pt :: "real \<Rightarrow> real \<Rightarrow> keypoint" where
  "pt a b = \<lparr>x = a, y = b\<rparr>"

definition frame :: "nat \<Rightarrow> (nat \<Rightarrow> keypoint) \<Rightarrow> landmarkerResult" where
  "frame n f = \<lparr>landmarks = [map f [0..<n]]\<rparr>"

text \<open>A head turned so that the nose sits a quarter of the shoulder span off centre
  (yaw of 30 degrees to one side, and to the other).\<close>

definition head_turn_30 :: landmarkerResult where
  "head_turn_30 = frame 33 (\<lambda>i. if i = 0 then pt (3 / 5) (3 / 10)
                                 else if i = 11 then pt (3 / 5) (1 / 2)
                                 else if i = 12 then pt (2 / 5) (1 / 2) else pt (1 / 2) (1 / 2))"

definition head_turn_m30 :: landmarkerResult where
  "head_turn_m30 = frame 33 (\<lambda>i. if i = 0 then pt (2 / 5) (3 / 10)
                                  else if i = 11 then pt (3 / 5) (1 / 2)
                                  else if i = 12 then pt (2 / 5) (1 / 2) else pt (1 / 2) (1 / 2))"

text \<open>A subject standing side-on: both shoulders at the same horizontal position.\<close>

definition head_side_on :: landmarkerResult where
  "head_side_on = frame 33 (\<lambda>i. if i = 0 then pt (3 / 5) (3 / 10) else pt (1 / 2) (1 / 2))"

text \<open>A subject turned away from the camera: shoulders a tenth of the frame apart
  horizontally, ears a fifth of the frame above them.\<close>

definition shoulders_side_on :: landmarkerResult where
  "shoulders_side_on = frame 33 (\<lambda>i. if i = 11 then pt (5999 / 10000) (1 / 2)
                                     else if i = 12 then pt (1 / 2) (1 / 2)
                                     else pt (11 / 20) (3 / 10))"

text \<open>A subject facing the camera with both shoulders shrugged: shoulders a fifth of the
  frame apart, ears a tenth of the frame above them (both elevation angles 90 degrees).\<close>

definition shoulders_raised :: landmarkerResult where
  "shoulders_raised = frame 33 (\<lambda>i. if i = 11 then pt (3 / 5) (1 / 2)
                                    else if i = 12 then pt (4001 / 10000) (1 / 2)
                                    else pt (1 / 2) (2 / 5))"

text \<open>Hands with the thumb tip (4), the index tip (8) and the wrist (0) on one horizontal
  line: a small hand far from the camera (scale reference 0.05, gap 0.02), a pinched hand
  (scale reference 0.2, gap 0.02) and a released one (scale reference 0.2, gap 0.1).\<close>

definition hand_small :: landmarkerResult where
  "hand_small = frame 21 (\<lambda>i. if i = 4 then pt 0 0 else if i = 8 then pt (1 / 50) 0
                              else if i = 0 then pt (1 / 20) 0 else pt (1 / 2) (1 / 2))"

definition hand_pinched :: landmarkerResult where
  "hand_pinched = frame 21 (\<lambda>i. if i = 4 then pt (2 / 5) (1 / 2)
                                else if i = 8 then pt (21 / 50) (1 / 2)
                                else if i = 0 then pt (3 / 5) (1 / 2) else pt (1 / 2) (1 / 2))"

definition hand_released :: landmarkerResult where
  "hand_released = frame 21 (\<lambda>i. if i = 4 then pt (2 / 5) (1 / 2)
                                 else if i = 8 then pt (1 / 2) (1 / 2)
                                 else if i = 0 then pt (3 / 5) (1 / 2) else pt (1 / 2) (1 / 2))"

text \<open>What the detector's result must hold for an analyzer to read every landmark it needs:
  nothing when no subject is present, otherwise at least \<open>n\<close> landmarks for the first subject.\<close>

definition has_points :: "nat \<Rightarrow> landmarkerResult option \<Rightarrow> bool" where
  "has_points n res =
     (case res of None \<Rightarrow> True
      | Some p \<Rightarrow> (case landmarks p of [] \<Rightarrow> True | lm # _ \<Rightarrow> n \<le> length lm))"

text \<open>\<open>!res?.landmarks?.length\<close>: no subject detected.\<close>

definition absent :: "landmarkerResult option \<Rightarrow> bool" where
  "absent res = (case res of None \<Rightarrow> True | Some p \<Rightarrow> landmarks p = [])"

text \<open>The fallback result of an analyzer that sees no subject: counter unchanged, quality 0,
  no phase field.\<close>

abbreviation not_visible :: "state \<Rightarrow> string \<Rightarrow> result" where
  "not_visible st s \<equiv> \<lparr>rep = state_rep st, status = Text s, quality = 0, phase = None\<rparr>"

text \<open>
  The normalised pinch gap as the specification words it, with a denominator that is never
  below 0.1; it is compared below with \<open>finger_norm\<close>, which is what the source computes.
\<close>

definition finger_norm_claimed :: "keypoint \<Rightarrow> keypoint \<Rightarrow> keypoint \<Rightarrow> real" where
  "finger_norm_claimed thumb index wrist =
     distance thumb index / (if distance thumb wrist \<ge> 0.1 then distance thumb wrist else 0.1)"

section \<open>Results\<close>

subsection \<open>Primitives\<close>

lemma at_index_nth: "at_index xs i = (if i < length xs then Some (xs ! i) else None)"
  by (induction xs arbitrary: i) (auto simp: nth_Cons')

lemma at_index_map_upt: "at_index (map f [0..<n]) i = (if i < n then Some (f i) else None)"
  by (simp add: at_index_nth)

text \<open>\<open>str_includes\<close> is the substring test.\<close>

lemma str_includes_sublist: "str_includes s t \<longleftrightarrow> sublist t s"
  by (induction s) (auto simp: sublist_Cons_right)

lemma x_pt: "x (pt a b) = a" and y_pt: "y (pt a b) = b"
  by (simp_all add: pt_def)

lemma landmarks_frame: "landmarks (frame n f) = [map f [0..<n]]"
  by (simp add: frame_def)

lemma hypot_nonneg: "0 \<le> hypot a b"
  by (simp add: hypot_def)

lemma hypot_zero_right: "hypot a 0 = \<bar>a\<bar>"
  by (simp add: hypot_def)

lemma distance_nonneg: "0 \<le> distance a b"
  by (simp add: distance_def hypot_nonneg)

lemma distance_same_y: "y a = y b \<Longrightarrow> distance a b = \<bar>x a - x b\<bar>"
  by (simp add: distance_def hypot_zero_right)

subsection \<open>The engine returns on every complete frame\<close>

text \<open>
  An analyzer throws only when the first subject's landmark list is too short for the
  indices it reads; the detector's lists (33 pose points, 21 hand points) are long enough.
\<close>

lemma has_points_mono: "has_points n res \<Longrightarrow> m \<le> n \<Longrightarrow> has_points m res"
  by (auto simp: has_points_def split: option.splits list.splits)

lemma headLogic_total: "has_points 13 pose \<Longrightarrow> \<exists>r. headLogic pose st = Inr r"
  by (auto simp: headLogic_def has_points_def at_index_nth Let_def
      split: option.splits list.splits prod.splits)

lemma fingerLogic_total: "has_points 9 hand \<Longrightarrow> \<exists>r. fingerLogic hand st = Inr r"
  by (auto simp: fingerLogic_def has_points_def at_index_nth Let_def
      split: option.splits list.splits prod.splits)

lemma handLogic_total: "has_points 21 hand \<Longrightarrow> \<exists>r. handLogic hand st = Inr r"
  by (auto simp: handLogic_def has_points_def at_index_nth Let_def
      split: option.splits list.splits prod.splits sum.splits)

lemma legLogic_total: "has_points 28 pose \<Longrightarrow> \<exists>r. legLogic pose st = Inr r"
  by (auto simp: legLogic_def has_points_def at_index_nth Let_def
      split: option.splits list.splits prod.splits)

lemma shoulderLogic_total: "has_points 13 pose \<Longrightarrow> \<exists>r. shoulderLogic pose st = Inr r"
  by (auto simp: shoulderLogic_def has_points_def at_index_nth Let_def
      split: option.splits list.splits prod.splits)

text \<open>A pose list that stops before the shoulders makes the head analyzer throw.\<close>

lemma headLogic_short_frame:
  "headLogic (Some (frame 11 (\<lambda>i. pt 0 0))) st = Inl TypeError"
  by (simp add: headLogic_def landmarks_frame at_index_map_upt)

subsection \<open>Example evaluations\<close>

lemma head_yaw_30: "head_yaw (pt (3 / 5) (3 / 10)) (pt (3 / 5) (1 / 2)) (pt (2 / 5) (1 / 2)) = 30"
  by (simp add: head_yaw_def head_span_def x_pt)

lemma head_yaw_m30:
  "head_yaw (pt (2 / 5) (3 / 10)) (pt (3 / 5) (1 / 2)) (pt (2 / 5) (1 / 2)) = - 30"
  by (simp add: head_yaw_def head_span_def x_pt arcsin_minus)

lemma headLogic_turn_30:
  "headLogic (Some head_turn_30) st
     = Inr \<lparr>rep = state_rep st, status = YawDeg 30, quality = 84, phase = Some ''right''\<rparr>"
  by (simp add: headLogic_def head_turn_30_def landmarks_frame at_index_map_upt
      head_yaw_30 head_span_def x_pt head_step_def Let_def)

lemma headLogic_turn_m30_from_right:
  "headLogic (Some head_turn_m30) \<lparr>state_rep = n, state_phase = ''right''\<rparr>
     = Inr \<lparr>rep = n + 1, status = YawDeg (- 30), quality = 84, phase = Some ''left''\<rparr>"
  by (simp add: headLogic_def head_turn_m30_def landmarks_frame at_index_map_upt
      head_yaw_m30 head_span_def x_pt head_step_def Let_def)

lemma shoulder_angle_raised:
  "shoulder_angle (pt (1 / 2) (2 / 5)) (pt (3 / 5) (1 / 2))
     (shoulder_span (pt (3 / 5) (1 / 2)) (pt (4001 / 10000) (1 / 2))) = 90"
  "shoulder_angle (pt (1 / 2) (2 / 5)) (pt (4001 / 10000) (1 / 2))
     (shoulder_span (pt (3 / 5) (1 / 2)) (pt (4001 / 10000) (1 / 2))) = 90"
  by (simp_all add: shoulder_angle_def shoulder_span_def x_pt y_pt)

lemma shoulderLogic_raised:
  "shoulderLogic (Some shoulders_raised) \<lparr>state_rep = n, state_phase = ''idle''\<rparr>
     = Inr \<lparr>rep = n + 2, status = ShoulderDeg 90 90, quality = 75, phase = Some ''L1R1''\<rparr>"
  by (simp add: shoulderLogic_def shoulders_raised_def landmarks_frame at_index_map_upt
      shoulder_angle_raised shoulder_step_def Let_def)

lemma finger_norm_pinched:
  "finger_norm (pt (2 / 5) (1 / 2)) (pt (21 / 50) (1 / 2)) (pt (3 / 5) (1 / 2)) = 1 / 10"
  by (simp add: finger_norm_def distance_same_y x_pt y_pt Let_def)

lemma finger_norm_released:
  "finger_norm (pt (2 / 5) (1 / 2)) (pt (1 / 2) (1 / 2)) (pt (3 / 5) (1 / 2)) = 1 / 2"
  by (simp add: finger_norm_def distance_same_y x_pt y_pt Let_def)

subsection \<open>Quality range\<close>

lemma head_quality_range:
  assumes "headLogic pose st = Inr r"
  shows "0 \<le> quality r \<and> quality r \<le> 100"
  using assms
  by (auto simp: headLogic_def Let_def split: option.splits list.splits if_splits prod.splits)

lemma finger_quality_range:
  assumes "fingerLogic hand st = Inr r"
  shows "0 \<le> quality r \<and> quality r \<le> 100"
  using assms
  by (auto simp: fingerLogic_def Let_def split: option.splits list.splits if_splits prod.splits)

lemma hand_quality_range:
  assumes "handLogic hand st = Inr r"
  shows "0 \<le> quality r \<and> quality r \<le> 100"
  using assms
  by (auto simp: handLogic_def Let_def
      split: option.splits list.splits if_splits prod.splits sum.splits)

lemma leg_quality_range:
  assumes "legLogic pose st = Inr r"
  shows "0 \<le> quality r \<and> quality r \<le> 100"
  using assms
  by (auto simp: legLogic_def Let_def split: option.splits list.splits if_splits prod.splits)

lemma shoulder_quality_upper:
  assumes "shoulderLogic pose st = Inr r"
  shows "quality r \<le> 100"
  using assms
  by (auto simp: shoulderLogic_def Let_def split: option.splits list.splits if_splits prod.splits)

text \<open>
  Claim C1: for every analyzer the quality of the returned result lies in [0, 100], and in
  particular the shoulder-raise quality is never below 0. The head, finger, hand and knee
  analyzers clamp on both sides (the four lemmas above), and the shoulder-raise quality is
  at most 100; but the shoulder-raise analyzer has no lower clamp. For a subject turned away
  from the camera, with the shoulders a tenth of the frame apart and the ears a fifth of the
  frame above them, both elevation angles are -180 and the returned quality is -150.
\<close>

theorem shoulder_quality_negative:
  "evaluateFrame ''shoulder'' (Some shoulders_side_on) None
       \<lparr>state_rep = 0, state_phase = ''idle''\<rparr>
     = Inr \<lparr>rep = 0, status = ShoulderDeg (- 180) (- 180), quality = - 150,
            phase = Some ''L0R0''\<rparr>"
  by (simp add: evaluateFrame_def shoulderLogic_def shoulders_side_on_def landmarks_frame
      at_index_map_upt shoulder_span_def shoulder_angle_def shoulder_step_def x_pt y_pt Let_def)

subsection \<open>Head-turn state machine\<close>

lemma head_step_left_right:
  "yaw > 25 \<Longrightarrow> state_phase st = ''left'' \<Longrightarrow> head_step yaw st = (state_rep st, ''right'')"
  by (simp add: head_step_def)

text \<open>The fourth test of the chain is never reached: the counter only moves on a
  right-to-left sweep.\<close>

lemma head_step_increment_only_left:
  "head_step yaw st = (n, ph) \<Longrightarrow> n \<noteq> state_rep st \<Longrightarrow>
   n = state_rep st + 1 \<and> ph = ''left'' \<and> state_phase st = ''right'' \<and> yaw < - 25"
  by (auto simp: head_step_def Let_def split: if_splits)

text \<open>
  Claim C2: from prior phase "left", a frame whose yaw exceeds +25 degrees returns
  rep = prior rep + 1 and phase "right". On the code the first test of the chain
  (\<open>yaw > threshold && phase !== 'right'\<close>) already holds for phase "left", so the
  counter is left alone: with prior state rep 3, phase "left" and a yaw of 30 degrees the
  result has rep 3 and phase "right".
\<close>

theorem head_left_to_right_no_rep:
  "evaluateFrame ''head'' (Some head_turn_30) None \<lparr>state_rep = 3, state_phase = ''left''\<rparr>
     = Inr \<lparr>rep = 3, status = YawDeg 30, quality = 84, phase = Some ''right''\<rparr>"
  by (simp add: evaluateFrame_def headLogic_turn_30)

subsection \<open>Finger-pinch normalisation\<close>

text \<open>
  The claim of a denominator of at least 0.1 fails for a small hand: with a scale reference
  of 0.05 and a gap of 0.02 the source divides by 0.05 and gets 0.4, where a denominator
  clamped to 0.1 would give 0.2.
\<close>

theorem finger_norm_small_span_counterexample:
  "distance (pt 0 0) (pt (1 / 20) 0) = 1 / 20 \<and>
   finger_norm (pt 0 0) (pt (1 / 50) 0) (pt (1 / 20) 0) = 2 / 5 \<and>
   finger_norm_claimed (pt 0 0) (pt (1 / 50) 0) (pt (1 / 20) 0) = 1 / 5 \<and>
   finger_norm (pt 0 0) (pt (1 / 50) 0) (pt (1 / 20) 0)
     \<noteq> finger_norm_claimed (pt 0 0) (pt (1 / 50) 0) (pt (1 / 20) 0)"
  by (simp add: finger_norm_def finger_norm_claimed_def distance_same_y x_pt y_pt Let_def)

text \<open>
  Claim C3, amended: for every hand frame holding the thumb tip, index tip and wrist, the
  finger-pinch analyzer returns, and the normalised gap it reports is the thumb-to-index
  distance divided by \<open>d\<close>, where \<open>d\<close> is the wrist-to-thumb scale reference when that is
  not zero and 0.1 when it is zero. The denominator is never zero; it is at least 0.1
  exactly when the scale reference is zero or at least 0.1.
\<close>

theorem finger_norm_denominator:
  assumes "landmarks h = lm # rest"
    and "at_index lm 4 = Some thumb"
    and "at_index lm 0 = Some wrist"
    and "at_index lm 8 = Some index"
  shows "\<exists>r. fingerLogic (Some h) st = Inr r \<and>
           status r = PinchGapPct
             (distance thumb index
                / (if distance thumb wrist = 0 then 0.1 else distance thumb wrist) * 100) \<and>
           finger_norm thumb index wrist
             = distance thumb index
                 / (if distance thumb wrist = 0 then 0.1 else distance thumb wrist) \<and>
           0 < (if distance thumb wrist = 0 then 0.1 else distance thumb wrist) \<and>
           ((0.1 \<le> (if distance thumb wrist = 0 then 0.1 else distance thumb wrist))
              = (distance thumb wrist = 0 \<or> 0.1 \<le> distance thumb wrist))"
proof -
  have pos: "0 < (if distance thumb wrist = 0 then 0.1 else distance thumb wrist)"
    using distance_nonneg [of thumb wrist] by (simp add: less_le)
  have nrm: "finger_norm thumb index wrist
      = distance thumb index / (if distance thumb wrist = 0 then 0.1 else distance thumb wrist)"
    by (simp add: finger_norm_def Let_def)
  have res: "\<exists>r. fingerLogic (Some h) st = Inr r \<and>
      status r = PinchGapPct (finger_norm thumb index wrist * 100)"
    using assms by (simp add: fingerLogic_def Let_def split: prod.splits)
  show ?thesis
    using pos res unfolding nrm by auto
qed

theorem finger_norm_denominator_witness:
  "\<exists>r. fingerLogic (Some hand_small) \<lparr>state_rep = 0, state_phase = ''idle''\<rparr> = Inr r \<and>
        status r = PinchGapPct 40"
  using finger_norm_denominator [where h = hand_small and lm = "hd (landmarks hand_small)"
      and rest = "[]" and thumb = "pt 0 0" and wrist = "pt (1 / 20) 0"
      and index = "pt (1 / 50) 0" and st = "\<lparr>state_rep = 0, state_phase = ''idle''\<rparr>"]
  by (auto simp: hand_small_def landmarks_frame at_index_map_upt distance_same_y x_pt y_pt)

subsection \<open>Repetition counter\<close>

lemma head_step_rep:
  "head_step yaw st = (n, ph) \<Longrightarrow> state_rep st \<le> n \<and> n \<le> state_rep st + 1"
  by (auto simp: head_step_def Let_def split: if_splits)

lemma finger_step_rep:
  "finger_step g st = (n, ph) \<Longrightarrow> state_rep st \<le> n \<and> n \<le> state_rep st + 1"
  by (auto simp: finger_step_def Let_def split: if_splits)

lemma hand_step_rep:
  "hand_step e st = (n, ph) \<Longrightarrow> state_rep st \<le> n \<and> n \<le> state_rep st + 1"
  by (auto simp: hand_step_def Let_def split: if_splits)

lemma leg_step_rep:
  "leg_step b st = (n, ph) \<Longrightarrow> state_rep st \<le> n \<and> n \<le> state_rep st + 1"
  by (auto simp: leg_step_def Let_def split: if_splits)

lemma shoulder_step_rep:
  "shoulder_step l r st = (n, ph) \<Longrightarrow> state_rep st \<le> n \<and> n \<le> state_rep st + 2"
  by (auto simp: shoulder_step_def Let_def split: if_splits)

lemma headLogic_rep:
  "headLogic pose st = Inr r \<Longrightarrow> state_rep st \<le> rep r \<and> rep r \<le> state_rep st + 1"
  by (auto simp: headLogic_def Let_def dest: head_step_rep
      split: option.splits list.splits if_splits prod.splits)

lemma fingerLogic_rep:
  "fingerLogic hand st = Inr r \<Longrightarrow> state_rep st \<le> rep r \<and> rep r \<le> state_rep st + 1"
  by (auto simp: fingerLogic_def Let_def dest: finger_step_rep
      split: option.splits list.splits if_splits prod.splits)

lemma handLogic_rep:
  "handLogic hand st = Inr r \<Longrightarrow> state_rep st \<le> rep r \<and> rep r \<le> state_rep st + 1"
  by (auto simp: handLogic_def Let_def dest: hand_step_rep
      split: option.splits list.splits if_splits prod.splits sum.splits)

lemma legLogic_rep:
  "legLogic pose st = Inr r \<Longrightarrow> state_rep st \<le> rep r \<and> rep r \<le> state_rep st + 1"
  by (auto simp: legLogic_def Let_def dest: leg_step_rep
      split: option.splits list.splits if_splits prod.splits)

lemma shoulderLogic_rep:
  "shoulderLogic pose st = Inr r \<Longrightarrow> state_rep st \<le> rep r \<and> rep r \<le> state_rep st + 2"
  by (auto simp: shoulderLogic_def Let_def dest: shoulder_step_rep
      split: option.splits list.splits if_splits prod.splits)

text \<open>
  Claim C4: for every exercise, every landmark data and every prior state, the returned rep
  is at least the prior rep; the head, finger, hand and knee analyzers add at most 1, the
  shoulder analyzer 0, 1 or 2. A result is returned whenever the pose holds the 28 points
  and the hand the 21 points that the analyzers read.
\<close>

theorem evaluateFrame_rep_monotone:
  "(has_points 28 pose \<and> has_points 21 hand \<longrightarrow> (\<exists>r. evaluateFrame ex pose hand st = Inr r)) \<and>
   (\<forall>r. evaluateFrame ex pose hand st = Inr r \<longrightarrow>
      state_rep st \<le> rep r \<and> rep r \<le> state_rep st + 2 \<and>
      (ex \<noteq> ''shoulder'' \<longrightarrow> rep r \<le> state_rep st + 1))"
proof (intro conjI impI allI)
  assume "has_points 28 pose \<and> has_points 21 hand"
  then have "has_points 13 pose" "has_points 28 pose" "has_points 9 hand" "has_points 21 hand"
    by (auto elim: has_points_mono)
  then show "\<exists>r. evaluateFrame ex pose hand st = Inr r"
    by (simp add: evaluateFrame_def headLogic_total fingerLogic_total handLogic_total
        legLogic_total shoulderLogic_total)
next
  fix r assume "evaluateFrame ex pose hand st = Inr r"
  then show "state_rep st \<le> rep r"
    by (auto simp: evaluateFrame_def split: if_splits
        dest: headLogic_rep fingerLogic_rep handLogic_rep legLogic_rep shoulderLogic_rep)
next
  fix r assume "evaluateFrame ex pose hand st = Inr r"
  then show "rep r \<le> state_rep st + 2"
    by (auto simp: evaluateFrame_def split: if_splits
        dest: headLogic_rep fingerLogic_rep handLogic_rep legLogic_rep shoulderLogic_rep)
next
  fix r assume "evaluateFrame ex pose hand st = Inr r" "ex \<noteq> ''shoulder''"
  then show "rep r \<le> state_rep st + 1"
    by (auto simp: evaluateFrame_def split: if_splits
        dest: headLogic_rep fingerLogic_rep handLogic_rep legLogic_rep)
qed

theorem evaluateFrame_rep_monotone_witness:
  "has_points 28 (Some head_turn_m30) \<and> has_points 21 None \<and> ''head'' \<noteq> ''shoulder'' \<and>
   evaluateFrame ''head'' (Some head_turn_m30) None \<lparr>state_rep = 3, state_phase = ''right''\<rparr>
     = Inr \<lparr>rep = 4, status = YawDeg (- 30), quality = 84, phase = Some ''left''\<rparr> \<and>
   (3::int) \<le> 4 \<and> (4::int) \<le> 3 + 1 \<and>
   has_points 28 (Some shoulders_raised) \<and>
   evaluateFrame ''shoulder'' (Some shoulders_raised) None \<lparr>state_rep = 3, state_phase = ''idle''\<rparr>
     = Inr \<lparr>rep = 5, status = ShoulderDeg 90 90, quality = 75, phase = Some ''L1R1''\<rparr> \<and>
   (3::int) \<le> 5 \<and> (5::int) \<le> 3 + 2"
proof -
  have complete: "has_points 28 (Some head_turn_m30)" "has_points 21 None"
    "has_points 28 (Some shoulders_raised)"
    by (simp_all add: has_points_def head_turn_m30_def shoulders_raised_def landmarks_frame)
  show ?thesis
    using complete
      evaluateFrame_rep_monotone [of "Some head_turn_m30" None "''head''"
        "\<lparr>state_rep = 3, state_phase = ''right''\<rparr>"]
      evaluateFrame_rep_monotone [of "Some shoulders_raised" None "''shoulder''"
        "\<lparr>state_rep = 3, state_phase = ''idle''\<rparr>"]
    by (simp add: evaluateFrame_def headLogic_turn_m30_from_right shoulderLogic_raised)
qed

subsection \<open>Fallbacks\<close>

text \<open>
  Claim C5: for every exercise identifier other than the five known ones, and every pose,
  hand and prior state, the dispatch returns rep unchanged, status "Idle", quality 0 and no
  phase field; it does not throw.
\<close>

theorem unknown_exercise_idle:
  assumes "ex \<notin> {''head'', ''finger'', ''hand'', ''leg'', ''shoulder''}"
  shows "evaluateFrame ex pose hand st
           = Inr \<lparr>rep = state_rep st, status = Text ''Idle'', quality = 0, phase = None\<rparr>"
  using assms by (simp add: evaluateFrame_def)

theorem unknown_exercise_idle_witness:
  "''unknown'' \<notin> {''head'', ''finger'', ''hand'', ''leg'', ''shoulder''} \<and>
   evaluateFrame ''unknown'' (Some head_turn_30) None \<lparr>state_rep = 5, state_phase = ''right''\<rparr>
     = Inr \<lparr>rep = 5, status = Text ''Idle'', quality = 0, phase = None\<rparr>"
  using unknown_exercise_idle [of "''unknown''" "Some head_turn_30" None
      "\<lparr>state_rep = 5, state_phase = ''right''\<rparr>"]
  by simp

text \<open>
  Claim C6: with an absent landmark set (a null result or an empty list of subjects) for
  the exercise's modality, the result has quality 0, rep unchanged, no phase field, and the
  status "Show your shoulders and head" for head, "Show your hand to the camera" for finger
  and for hand, "Show full body to camera" for leg, "Show upper body" for shoulder. The
  caller, fed such a result, keeps its counter state as it was.
\<close>

theorem absent_landmarks_not_visible:
  "(absent pose \<longrightarrow>
      evaluateFrame ''head'' pose hand st = Inr (not_visible st ''Show your shoulders and head'')) \<and>
   (absent hand \<longrightarrow>
      evaluateFrame ''finger'' pose hand st = Inr (not_visible st ''Show your hand to the camera'')) \<and>
   (absent hand \<longrightarrow>
      evaluateFrame ''hand'' pose hand st = Inr (not_visible st ''Show your hand to the camera'')) \<and>
   (absent pose \<longrightarrow>
      evaluateFrame ''leg'' pose hand st = Inr (not_visible st ''Show full body to camera'')) \<and>
   (absent pose \<longrightarrow>
      evaluateFrame ''shoulder'' pose hand st = Inr (not_visible st ''Show upper body'')) \<and>
   (\<forall>s. advance st (not_visible st s) = st)"
  by (auto simp: absent_def evaluateFrame_def headLogic_def fingerLogic_def handLogic_def
      legLogic_def shoulderLogic_def advance_def split: option.splits list.splits)

theorem absent_landmarks_not_visible_witness:
  "absent None \<and> absent (Some \<lparr>landmarks = []\<rparr>) \<and>
   evaluateFrame ''head'' None (Some \<lparr>landmarks = []\<rparr>) \<lparr>state_rep = 2, state_phase = ''left''\<rparr>
     = Inr \<lparr>rep = 2, status = Text ''Show your shoulders and head'', quality = 0, phase = None\<rparr> \<and>
   evaluateFrame ''finger'' None (Some \<lparr>landmarks = []\<rparr>) \<lparr>state_rep = 2, state_phase = ''left''\<rparr>
     = Inr \<lparr>rep = 2, status = Text ''Show your hand to the camera'', quality = 0, phase = None\<rparr> \<and>
   evaluateFrame ''hand'' None (Some \<lparr>landmarks = []\<rparr>) \<lparr>state_rep = 2, state_phase = ''left''\<rparr>
     = Inr \<lparr>rep = 2, status = Text ''Show your hand to the camera'', quality = 0, phase = None\<rparr> \<and>
   evaluateFrame ''leg'' None (Some \<lparr>landmarks = []\<rparr>) \<lparr>state_rep = 2, state_phase = ''left''\<rparr>
     = Inr \<lparr>rep = 2, status = Text ''Show full body to camera'', quality = 0, phase = None\<rparr> \<and>
   evaluateFrame ''shoulder'' None (Some \<lparr>landmarks = []\<rparr>) \<lparr>state_rep = 2, state_phase = ''left''\<rparr>
     = Inr \<lparr>rep = 2, status = Text ''Show upper body'', quality = 0, phase = None\<rparr>"
  using absent_landmarks_not_visible [of None "Some \<lparr>landmarks = []\<rparr>"
      "\<lparr>state_rep = 2, state_phase = ''left''\<rparr>"]
  by (simp add: absent_def)

subsection \<open>Finger-pinch state machine\<close>

text \<open>
  Claim C7: for every prior state, a frame with normalised gap below 0.25 sets phase
  "pinched" and leaves rep unchanged; a frame with normalised gap above 0.45 while the phase
  is "pinched" returns rep = prior rep + 1 and phase "released"; the quality is
  max(0, min(100, (0.45 - norm) * 200)), which is 70 when norm is 0.1.
\<close>

theorem finger_pinch_release:
  assumes "landmarks h = lm # rest"
    and "at_index lm 4 = Some thumb"
    and "at_index lm 0 = Some wrist"
    and "at_index lm 8 = Some index"
  shows "\<exists>r. fingerLogic (Some h) st = Inr r \<and>
           quality r = max 0 (min 100 ((0.45 - finger_norm thumb index wrist) * 200)) \<and>
           (finger_norm thumb index wrist < 0.25 \<longrightarrow>
              rep r = state_rep st \<and> phase r = Some ''pinched'') \<and>
           (finger_norm thumb index wrist > 0.45 \<and> state_phase st = ''pinched'' \<longrightarrow>
              rep r = state_rep st + 1 \<and> phase r = Some ''released'') \<and>
           (finger_norm thumb index wrist = 0.1 \<longrightarrow> quality r = 70)"
  using assms
  by (auto simp: fingerLogic_def finger_step_def Let_def split: prod.splits)

theorem finger_pinch_release_witness:
  "finger_norm (pt (2 / 5) (1 / 2)) (pt (21 / 50) (1 / 2)) (pt (3 / 5) (1 / 2)) = 0.1 \<and>
   (\<exists>r. fingerLogic (Some hand_pinched) \<lparr>state_rep = 4, state_phase = ''idle''\<rparr> = Inr r \<and>
        rep r = 4 \<and> phase r = Some ''pinched'' \<and> quality r = 70) \<and>
   finger_norm (pt (2 / 5) (1 / 2)) (pt (1 / 2) (1 / 2)) (pt (3 / 5) (1 / 2)) = 0.5 \<and>
   (\<exists>r. fingerLogic (Some hand_released) \<lparr>state_rep = 4, state_phase = ''pinched''\<rparr> = Inr r \<and>
        rep r = 5 \<and> phase r = Some ''released'' \<and> quality r = 0)"
proof -
  have frames: "landmarks hand_pinched = hd (landmarks hand_pinched) # []"
    "at_index (hd (landmarks hand_pinched)) 4 = Some (pt (2 / 5) (1 / 2))"
    "at_index (hd (landmarks hand_pinched)) 0 = Some (pt (3 / 5) (1 / 2))"
    "at_index (hd (landmarks hand_pinched)) 8 = Some (pt (21 / 50) (1 / 2))"
    "landmarks hand_released = hd (landmarks hand_released) # []"
    "at_index (hd (landmarks hand_released)) 4 = Some (pt (2 / 5) (1 / 2))"
    "at_index (hd (landmarks hand_released)) 0 = Some (pt (3 / 5) (1 / 2))"
    "at_index (hd (landmarks hand_released)) 8 = Some (pt (1 / 2) (1 / 2))"
    by (simp_all add: hand_pinched_def hand_released_def landmarks_frame at_index_map_upt)
  show ?thesis
    using finger_pinch_release [OF frames(1-4), of "\<lparr>state_rep = 4, state_phase = ''idle''\<rparr>"]
      finger_pinch_release [OF frames(5-8), of "\<lparr>state_rep = 4, state_phase = ''pinched''\<rparr>"]
    by (auto simp: finger_norm_pinched finger_norm_released)
qed

text \<open>The two frames in sequence, the caller carrying the state from one to the next.\<close>

lemma finger_pinch_then_release:
  assumes "landmarks h1 = lm1 # rest1"
    and "at_index lm1 4 = Some thumb1"
    and "at_index lm1 0 = Some wrist1"
    and "at_index lm1 8 = Some index1"
    and "landmarks h2 = lm2 # rest2"
    and "at_index lm2 4 = Some thumb2"
    and "at_index lm2 0 = Some wrist2"
    and "at_index lm2 8 = Some index2"
    and "finger_norm thumb1 index1 wrist1 < 0.25"
    and "finger_norm thumb2 index2 wrist2 > 0.45"
    and "fingerLogic (Some h1) st = Inr r1"
    and "fingerLogic (Some h2) (advance st r1) = Inr r2"
  shows "rep r2 = state_rep st + 1 \<and> phase r2 = Some ''released''"
  using assms
  by (auto simp: fingerLogic_def finger_step_def advance_def Let_def split: prod.splits)

subsection \<open>Shoulder-raise state machine\<close>

text \<open>
  Claim C8: for every prior state with phase "L0R0" and every pose frame in which both the
  left and the right elevation angle exceed 60 degrees, the shoulder-raise analyzer returns
  rep = prior rep + 2 and phase "L1R1" in that single call.
\<close>

theorem shoulder_both_raise:
  assumes "landmarks p = lm # rest"
    and "at_index lm 11 = Some lShoulder"
    and "at_index lm 12 = Some rShoulder"
    and "at_index lm 7 = Some lEar"
    and "at_index lm 8 = Some rEar"
    and "state_phase st = ''L0R0''"
    and "shoulder_angle lEar lShoulder (shoulder_span lShoulder rShoulder) > 60"
    and "shoulder_angle rEar rShoulder (shoulder_span lShoulder rShoulder) > 60"
  shows "\<exists>r. shoulderLogic (Some p) st = Inr r \<and>
           rep r = state_rep st + 2 \<and> phase r = Some ''L1R1''"
  using assms
  by (simp add: shoulderLogic_def shoulder_step_def Let_def)

theorem shoulder_both_raise_witness:
  "shoulder_angle (pt (1 / 2) (2 / 5)) (pt (3 / 5) (1 / 2))
     (shoulder_span (pt (3 / 5) (1 / 2)) (pt (4001 / 10000) (1 / 2))) > 60 \<and>
   shoulder_angle (pt (1 / 2) (2 / 5)) (pt (4001 / 10000) (1 / 2))
     (shoulder_span (pt (3 / 5) (1 / 2)) (pt (4001 / 10000) (1 / 2))) > 60 \<and>
   (\<exists>r. shoulderLogic (Some shoulders_raised) \<lparr>state_rep = 6, state_phase = ''L0R0''\<rparr> = Inr r \<and>
        rep r = 8 \<and> phase r = Some ''L1R1'')"
proof -
  have frames: "landmarks shoulders_raised = hd (landmarks shoulders_raised) # []"
    "at_index (hd (landmarks shoulders_raised)) 11 = Some (pt (3 / 5) (1 / 2))"
    "at_index (hd (landmarks shoulders_raised)) 12 = Some (pt (4001 / 10000) (1 / 2))"
    "at_index (hd (landmarks shoulders_raised)) 7 = Some (pt (1 / 2) (2 / 5))"
    "at_index (hd (landmarks shoulders_raised)) 8 = Some (pt (1 / 2) (2 / 5))"
    by (simp_all add: shoulders_raised_def landmarks_frame at_index_map_upt)
  show ?thesis
    using shoulder_both_raise [OF frames, of "\<lparr>state_rep = 6, state_phase = ''L0R0''\<rparr>"]
    by (auto simp: shoulder_angle_raised)
qed

subsection \<open>Degenerate shoulder span in the head-turn analyzer\<close>

text \<open>The yaw branch, the only one that divides by the shoulder span, is reached only with a
  non-zero span.\<close>

lemma headLogic_phase_span:
  assumes res: "headLogic q s = Inr u" and ph: "phase u \<noteq> None"
  shows "\<exists>p' lm' rest' l r. q = Some p' \<and> landmarks p' = lm' # rest' \<and>
           at_index lm' 11 = Some l \<and> at_index lm' 12 = Some r \<and> head_span l r \<noteq> 0"
proof (cases q)
  case None
  with res ph show ?thesis by (auto simp: headLogic_def)
next
  case (Some p')
  show ?thesis
  proof (cases "landmarks p'")
    case Nil
    with Some res ph show ?thesis by (auto simp: headLogic_def)
  next
    case (Cons lm' rest')
    from Some Cons res obtain l where l: "at_index lm' 11 = Some l"
      by (cases "at_index lm' 11") (auto simp: headLogic_def)
    from Some Cons res l obtain r where r: "at_index lm' 12 = Some r"
      by (cases "at_index lm' 12") (auto simp: headLogic_def)
    have "head_span l r \<noteq> 0"
    proof
      assume "head_span l r = 0"
      with Some Cons l r res ph show False by (auto simp: headLogic_def)
    qed
    with Some Cons l r show ?thesis by blast
  qed
qed

text \<open>
  Claim C9: for every pose frame whose two shoulder keypoints have equal x coordinates, and
  every prior state, the head-turn analyzer returns rep unchanged, status "Hold steady",
  quality 0 and no phase field; and no division by zero occurs: every result that comes
  from the yaw computation (a result with a phase field) has a non-zero shoulder span.
\<close>

theorem head_zero_span:
  assumes "landmarks p = lm # rest"
    and "at_index lm 11 = Some lShoulder"
    and "at_index lm 12 = Some rShoulder"
    and "x lShoulder = x rShoulder"
  shows "headLogic (Some p) st
           = Inr \<lparr>rep = state_rep st, status = Text ''Hold steady'', quality = 0, phase = None\<rparr> \<and>
         (\<forall>q s u. headLogic q s = Inr u \<and> phase u \<noteq> None \<longrightarrow>
            (\<exists>p' lm' rest' l r. q = Some p' \<and> landmarks p' = lm' # rest' \<and>
               at_index lm' 11 = Some l \<and> at_index lm' 12 = Some r \<and> head_span l r \<noteq> 0))"
proof
  show "headLogic (Some p) st
      = Inr \<lparr>rep = state_rep st, status = Text ''Hold steady'', quality = 0, phase = None\<rparr>"
    using assms by (simp add: headLogic_def head_span_def)
next
  show "\<forall>q s u. headLogic q s = Inr u \<and> phase u \<noteq> None \<longrightarrow>
      (\<exists>p' lm' rest' l r. q = Some p' \<and> landmarks p' = lm' # rest' \<and>
         at_index lm' 11 = Some l \<and> at_index lm' 12 = Some r \<and> head_span l r \<noteq> 0)"
    using headLogic_phase_span by blast
qed

theorem head_zero_span_witness:
  "x (pt (1 / 2) (1 / 2)) = x (pt (1 / 2) (1 / 2)) \<and>
   headLogic (Some head_side_on) \<lparr>state_rep = 7, state_phase = ''right''\<rparr>
     = Inr \<lparr>rep = 7, status = Text ''Hold steady'', quality = 0, phase = None\<rparr> \<and>
   headLogic (Some head_turn_30) \<lparr>state_rep = 7, state_phase = ''right''\<rparr>
     = Inr \<lparr>rep = 7, status = YawDeg 30, quality = 84, phase = Some ''right''\<rparr> \<and>
   (\<exists>p' lm' rest' l r. Some head_turn_30 = Some p' \<and> landmarks p' = lm' # rest' \<and>
      at_index lm' 11 = Some l \<and> at_index lm' 12 = Some r \<and> head_span l r \<noteq> 0)"
proof -
  have frames: "landmarks head_side_on = hd (landmarks head_side_on) # []"
    "at_index (hd (landmarks head_side_on)) 11 = Some (pt (1 / 2) (1 / 2))"
    "at_index (hd (landmarks head_side_on)) 12 = Some (pt (1 / 2) (1 / 2))"
    "x (pt (1 / 2) (1 / 2)) = x (pt (1 / 2) (1 / 2))"
    by (simp_all add: head_side_on_def landmarks_frame at_index_map_upt)
  note inst = head_zero_span [OF frames, of "\<lparr>state_rep = 7, state_phase = ''right''\<rparr>"]
  have turn: "headLogic (Some head_turn_30) \<lparr>state_rep = 7, state_phase = ''right''\<rparr>
      = Inr \<lparr>rep = 7, status = YawDeg 30, quality = 84, phase = Some ''right''\<rparr>"
    by (simp add: headLogic_turn_30)
  from inst have guard: "\<forall>q s u. headLogic q s = Inr u \<and> phase u \<noteq> None \<longrightarrow>
      (\<exists>p' lm' rest' l r. q = Some p' \<and> landmarks p' = lm' # rest' \<and>
         at_index lm' 11 = Some l \<and> at_index lm' 12 = Some r \<and> head_span l r \<noteq> 0)"
    by (rule conjunct2)
  have "\<exists>p' lm' rest' l r. Some head_turn_30 = Some p' \<and> landmarks p' = lm' # rest' \<and>
      at_index lm' 11 = Some l \<and> at_index lm' 12 = Some r \<and> head_span l r \<noteq> 0"
    using guard [rule_format, of "Some head_turn_30"
        "\<lparr>state_rep = 7, state_phase = ''right''\<rparr>"
        "\<lparr>rep = 7, status = YawDeg 30, quality = 84, phase = Some ''right''\<rparr>"] turn
    by simp
  with inst turn show ?thesis by simp
qed

subsection \<open>Shape of the shoulder-raise phase\<close>

lemma shoulder_step_phase:
  "snd (shoulder_step l r st) \<in> {''L0R0'', ''L1R0'', ''L0R1'', ''L1R1''}"
  by (simp add: shoulder_step_def Let_def)

lemma shoulder_step_foreign:
  "\<not> str_includes (state_phase st) ''L1'' \<Longrightarrow> \<not> str_includes (state_phase st) ''R1'' \<Longrightarrow>
   shoulder_step l r (st\<lparr>state_phase := ''L0R0''\<rparr>) = shoulder_step l r st"
  by (simp add: shoulder_step_def Let_def)

text \<open>
  Claim C10: whenever the shoulder-raise analyzer is given a present pose landmark set, the
  phase it returns is one of "L0R0", "L1R0", "L0R1", "L1R1", for every prior phase string;
  a prior phase containing neither "L1" nor "R1" as a substring gives the same result as
  the prior phase "L0R0".
\<close>

theorem shoulder_phase_shape:
  assumes "landmarks p = lm # rest"
    and "at_index lm 11 = Some lShoulder"
    and "at_index lm 12 = Some rShoulder"
    and "at_index lm 7 = Some lEar"
    and "at_index lm 8 = Some rEar"
  shows "\<exists>r. shoulderLogic (Some p) st = Inr r \<and>
           phase r \<in> {Some ''L0R0'', Some ''L1R0'', Some ''L0R1'', Some ''L1R1''} \<and>
           (\<not> str_includes (state_phase st) ''L1'' \<and> \<not> str_includes (state_phase st) ''R1'' \<longrightarrow>
              shoulderLogic (Some p) (st\<lparr>state_phase := ''L0R0''\<rparr>) = Inr r)"
proof -
  obtain n ph where step:
    "shoulder_step (shoulder_angle lEar lShoulder (shoulder_span lShoulder rShoulder))
       (shoulder_angle rEar rShoulder (shoulder_span lShoulder rShoulder)) st = (n, ph)"
    by (cases "shoulder_step (shoulder_angle lEar lShoulder (shoulder_span lShoulder rShoulder))
       (shoulder_angle rEar rShoulder (shoulder_span lShoulder rShoulder)) st") auto
  have shape: "ph \<in> {''L0R0'', ''L1R0'', ''L0R1'', ''L1R1''}"
    using shoulder_step_phase [of "shoulder_angle lEar lShoulder (shoulder_span lShoulder rShoulder)"
        "shoulder_angle rEar rShoulder (shoulder_span lShoulder rShoulder)" st] step
    by simp
  show ?thesis
    using assms step shape
    by (auto simp: shoulderLogic_def Let_def shoulder_step_foreign)
qed

theorem shoulder_phase_shape_witness:
  "\<not> str_includes ''pinched'' ''L1'' \<and> \<not> str_includes ''pinched'' ''R1'' \<and>
   (\<exists>r. shoulderLogic (Some shoulders_raised) \<lparr>state_rep = 1, state_phase = ''pinched''\<rparr> = Inr r \<and>
        phase r \<in> {Some ''L0R0'', Some ''L1R0'', Some ''L0R1'', Some ''L1R1''} \<and>
        shoulderLogic (Some shoulders_raised) \<lparr>state_rep = 1, state_phase = ''L0R0''\<rparr> = Inr r)"
proof -
  have frames: "landmarks shoulders_raised = hd (landmarks shoulders_raised) # []"
    "at_index (hd (landmarks shoulders_raised)) 11 = Some (pt (3 / 5) (1 / 2))"
    "at_index (hd (landmarks shoulders_raised)) 12 = Some (pt (4001 / 10000) (1 / 2))"
    "at_index (hd (landmarks shoulders_raised)) 7 = Some (pt (1 / 2) (2 / 5))"
    "at_index (hd (landmarks shoulders_raised)) 8 = Some (pt (1 / 2) (2 / 5))"
    by (simp_all add: shoulders_raised_def landmarks_frame at_index_map_upt)
  show ?thesis
    using shoulder_phase_shape [OF frames, of "\<lparr>state_rep = 1, state_phase = ''pinched''\<rparr>"]
    by auto
qed

end
